theory Spec2Isabelle
  imports Complex_Main "HOL-Library.List_Lexorder" "HOL-Library.Char_ord" "HOL-Library.Multiset"
begin

section \<open>The relational store behind \<^verbatim>\<open>mcp_server.py\<close>\<close>

text \<open>
  The handlers of \<^verbatim>\<open>src/mcp/mcp_server.py\<close> query five tables of an SQLite file
  (\<^verbatim>\<open>contoso.db\<close>). The schema itself is not part of the sources; the row types below
  hold the columns that the SQL text of the handlers names.
\<close>

text \<open>
  Modelled from the spec: the types of the columns, which the missing schema would
  declare (section 3 of the specification: a customer has an id, name parts, an email, an
  optional phone and a loyalty level; an invoice belongs to one subscription and has an
  amount and a due date; a payment belongs to one invoice; a ticket belongs to one customer
  and optionally to one subscription, and its \<^verbatim>\<open>closed_at\<close> is nullable). A table is the
  list of its rows in store order. With these column types the construction of a record
  model from a selected row cannot fail.

  The amounts of the code are IEEE doubles, added by SQLite's \<^verbatim>\<open>SUM\<close> and by Python. They
  stand here as numbers of type \<^typ>\<open>real\<close> only to give the billing handler its shape:
  what the doubles round to is outside this model, and no property below is about the
  value of an amount.
\<close>

record Customers_row =
  c_customer_id :: int
  c_first_name :: string
  c_last_name :: string
  c_email :: string
  c_phone :: "string option"
  c_loyalty_level :: string

record Subscriptions_row =
  s_subscription_id :: int
  s_customer_id :: int

record Invoices_row =
  i_invoice_id :: int
  i_subscription_id :: int
  i_amount :: real
  i_due_date :: string

record Payments_row =
  p_invoice_id :: int
  p_amount :: real
  p_status :: string

record SupportTickets_row =
  t_ticket_id :: int
  t_customer_id :: int
  t_subscription_id :: "int option"
  t_category :: string
  t_opened_at :: string
  t_closed_at :: "string option"
  t_status :: string
  t_priority :: string
  t_subject :: string
  t_description :: string
  t_cs_agent :: string

record store =
  Customers :: "Customers_row list"
  Subscriptions :: "Subscriptions_row list"
  Invoices :: "Invoices_row list"
  Payments :: "Payments_row list"
  SupportTickets :: "SupportTickets_row list"

section \<open>Pydantic models\<close>

record Customer =
  customer_id :: int
  first_name :: string
  last_name :: string
  email :: string
  phone :: "string option"
  loyalty_level :: string

text \<open>One entry of \<^verbatim>\<open>BillingSummary.invoices\<close> (a \<^verbatim>\<open>dict\<close> with these five keys).\<close>

record invoice_entry =
  invoice_id :: int
  amount :: real
  paid :: real
  outstanding :: real
  due_date :: string

record BillingSummary =
  customer_id :: int
  total_due :: real
  invoices :: "invoice_entry list"

record SupportTicket =
  ticket_id :: int
  customer_id :: int
  subject :: string
  description :: string
  status :: string
  priority :: string
  opened_at :: string
  closed_at :: "string option"

text \<open>\<^verbatim>\<open>Customer(**dict(r))\<close> and \<^verbatim>\<open>SupportTicket(**dict(r))\<close> on a selected row.\<close>

definition Customer_of :: "Customers_row \<Rightarrow> Customer" where
  "Customer_of r =
     \<lparr>Customer.customer_id = c_customer_id r, first_name = c_first_name r,
      last_name = c_last_name r, email = c_email r, phone = c_phone r,
      loyalty_level = c_loyalty_level r\<rparr>"

definition SupportTicket_of :: "SupportTickets_row \<Rightarrow> SupportTicket" where
  "SupportTicket_of r =
     \<lparr>ticket_id = t_ticket_id r, SupportTicket.customer_id = t_customer_id r,
      subject = t_subject r, description = t_description r, status = t_status r,
      priority = t_priority r, opened_at = t_opened_at r, closed_at = t_closed_at r\<rparr>"

section \<open>Strings: \<^verbatim>\<open>str(int)\<close>, f-strings and \<^verbatim>\<open>strftime\<close>\<close>

definition digit_char :: "nat \<Rightarrow> char" where
  "digit_char d = ''0123456789'' ! (d mod 10)"

function str_nat :: "nat \<Rightarrow> string" where
  "str_nat n = (if n < 10 then [digit_char n] else str_nat (n div 10) @ [digit_char n])"
  by pat_completeness auto
termination
  by (relation "measure id") auto

declare str_nat.simps [simp del]

definition str_int :: "int \<Rightarrow> string" where
  "str_int i = (if i < 0 then CHR ''-'' # str_nat (nat (- i)) else str_nat (nat i))"

text \<open>A field of \<^verbatim>\<open>strftime\<close>: the decimal number, zero-filled on the left to a width.\<close>

definition zfill :: "nat \<Rightarrow> string \<Rightarrow> string" where
  "zfill width s = replicate (width - length s) (CHR ''0'') @ s"

record datetime =
  year :: nat
  month :: nat
  day :: nat
  hour :: nat
  minute :: nat
  second :: nat

text \<open>\<^verbatim>\<open>strftime("%Y-%m-%d %H:%M:%S")\<close>.\<close>

definition strftime :: "datetime \<Rightarrow> string" where
  "strftime t =
     zfill 4 (str_nat (year t)) @ ''-'' @ zfill 2 (str_nat (month t)) @ ''-'' @
     zfill 2 (str_nat (day t)) @ '' '' @ zfill 2 (str_nat (hour t)) @ '':'' @
     zfill 2 (str_nat (minute t)) @ '':'' @ zfill 2 (str_nat (second t))"

definition sq :: "string \<Rightarrow> string" where
  "sq s = CHR 0x27 # s @ [CHR 0x27]"

text \<open>The two messages of the handlers' \<^verbatim>\<open>raise ValueError(...)\<close> statements.\<close>

definition priority_message :: string where
  "priority_message =
     ''Priority must be '' @ sq ''low'' @ '', '' @ sq ''medium'' @ '', or '' @ sq ''high''"

definition not_found_message :: "int \<Rightarrow> string" where
  "not_found_message cid = ''Customer '' @ str_int cid @ '' not found''"

section \<open>Effects: connections, statements, exceptions\<close>

text \<open>
  A handler runs in a world: the committed content of the database file, the wall clock,
  the outcomes of the statements still to be issued (\<open>True\<close>: the statement raises
  \<^verbatim>\<open>sqlite3.Error\<close>; an exhausted list: no failure), and the log of what the connections
  did. A raised exception is the \<open>Inl\<close> of the result.
\<close>

datatype event = Connect | Execute | Commit | Close

datatype error = ValueError string | TypeError | StoreError

record world =
  db :: store
  clock :: datetime
  faults :: "bool list"
  log :: "event list"

type_synonym 'a io = "world \<Rightarrow> (error + 'a) \<times> world"

definition io_return :: "'a \<Rightarrow> 'a io" where
  "io_return x w = (Inr x, w)"

definition io_raise :: "error \<Rightarrow> 'a io" where
  "io_raise e w = (Inl e, w)"

definition io_bind :: "'a io \<Rightarrow> ('a \<Rightarrow> 'b io) \<Rightarrow> 'b io" where
  "io_bind m f w = (case m w of (Inl e, w') \<Rightarrow> (Inl e, w') | (Inr x, w') \<Rightarrow> f x w')"

definition next_fault :: "world \<Rightarrow> bool \<times> world" where
  "next_fault w = (case faults w of [] \<Rightarrow> (False, w) | f # fs \<Rightarrow> (f, w\<lparr>faults := fs\<rparr>))"

definition record_event :: "event \<Rightarrow> world \<Rightarrow> world" where
  "record_event e w = w\<lparr>log := log w @ [e]\<rparr>"

text \<open>
  \<^verbatim>\<open>get_db()\<close>: a fresh connection. Its value is the content the connection sees: the
  committed content, later with the connection's own uncommitted writes.
\<close>

definition get_db :: "store io" where
  "get_db w = (Inr (db w), record_event Connect w)"

text \<open>\<^verbatim>\<open>db.execute(...)\<close>: the statement is issued, and either raises or yields its result.\<close>

definition execute :: "'a \<Rightarrow> 'a io" where
  "execute result w =
     (let (f, w') = next_fault w in
      if f then (Inl StoreError, record_event Execute w')
      else (Inr result, record_event Execute w'))"

text \<open>\<^verbatim>\<open>db.commit()\<close>: what the connection sees becomes the committed content.\<close>

definition commit :: "store \<Rightarrow> unit io" where
  "commit conn w =
     (let (f, w') = next_fault w in
      if f then (Inl StoreError, record_event Commit w')
      else (Inr (), record_event Commit (w'\<lparr>db := conn\<rparr>)))"

text \<open>\<^verbatim>\<open>db.close()\<close>: uncommitted writes of the connection are dropped with its value.\<close>

definition close :: "unit io" where
  "close w = (Inr (), record_event Close w)"

text \<open>\<^verbatim>\<open>datetime.now()\<close>.\<close>

definition now :: "datetime io" where
  "now w = (Inr (clock w), w)"

definition fetchone :: "'r list \<Rightarrow> 'r option" where
  "fetchone rows = (case rows of [] \<Rightarrow> None | r # _ \<Rightarrow> Some r)"

definition fetchall :: "'r list \<Rightarrow> 'r list" where
  "fetchall rows = rows"

text \<open>Connections opened and not closed, read off a log.\<close>

definition open_connections :: "event list \<Rightarrow> int" where
  "open_connections l =
     int (length (filter (\<lambda>e. e = Connect) l)) - int (length (filter (\<lambda>e. e = Close) l))"

section \<open>SQL\<close>

text \<open>\<^verbatim>\<open>a LEFT JOIN b ON on\<close>: every match, or the left row alone with NULLs.\<close>

definition left_join :: "'a list \<Rightarrow> 'b list \<Rightarrow> ('a \<Rightarrow> 'b \<Rightarrow> bool) \<Rightarrow> ('a \<times> 'b option) list" where
  "left_join as bs on =
     concat (map (\<lambda>a. case filter (on a) bs of
                         [] \<Rightarrow> [(a, None)]
                       | ms \<Rightarrow> map (\<lambda>b. (a, Some b)) ms) as)"

text \<open>
  \<^verbatim>\<open>GROUP BY key\<close>: each group is its first row with the later rows of the same key, and
  the groups come in ascending order of the key, as SQLite returns them.
\<close>

fun group_rows :: "('r \<Rightarrow> 'k) \<Rightarrow> 'r list \<Rightarrow> ('r \<times> 'r list) list" where
  "group_rows key [] = []"
| "group_rows key (r # rs) =
     (r, filter (\<lambda>x. key x = key r) rs) # group_rows key (filter (\<lambda>x. key x \<noteq> key r) rs)"

definition group_by :: "('r \<Rightarrow> 'k::linorder) \<Rightarrow> 'r list \<Rightarrow> ('r \<times> 'r list) list" where
  "group_by key rows = sort_key (\<lambda>(r, rs). key r) (group_rows key rows)"

text \<open>\<^verbatim>\<open>SUM\<close> skips NULLs and is NULL when nothing is left; \<^verbatim>\<open>IFNULL\<close>.\<close>

definition sql_sum :: "real option list \<Rightarrow> real option" where
  "sql_sum vs = (case concat (map (\<lambda>v. case v of None \<Rightarrow> [] | Some x \<Rightarrow> [x]) vs) of
                   [] \<Rightarrow> None
                 | xs \<Rightarrow> Some (sum_list xs))"

definition ifnull :: "'a option \<Rightarrow> 'a \<Rightarrow> 'a" where
  "ifnull v d = (case v of None \<Rightarrow> d | Some x \<Rightarrow> x)"

text \<open>\<^verbatim>\<open>ORDER BY key DESC\<close>, rows of equal key staying in store order.\<close>

definition order_by_desc :: "('r \<Rightarrow> 'k::linorder) \<Rightarrow> 'r list \<Rightarrow> 'r list" where
  "order_by_desc key rows = rev (sort_key key (rev rows))"

text \<open>The row of the invoice query of \<^verbatim>\<open>get_billing_summary\<close>.\<close>

record inv_row =
  r_invoice_id :: int
  r_amount :: real
  r_due_date :: string
  r_paid :: real

text \<open>
  The invoice query. The bare columns of a group (\<^verbatim>\<open>inv.amount\<close>, \<^verbatim>\<open>inv.due_date\<close>) are
  read from the group's first row.
\<close>

definition select_invoices :: "store \<Rightarrow> int \<Rightarrow> inv_row list" where
  "select_invoices conn cid =
     (let joined = left_join (Invoices conn) (Payments conn)
                     (\<lambda>iv pay. p_invoice_id pay = i_invoice_id iv \<and> p_status pay = ''successful'');
          subs = map s_subscription_id (filter (\<lambda>s. s_customer_id s = cid) (Subscriptions conn));
          kept = filter (\<lambda>(iv, pay). i_subscription_id iv \<in> set subs) joined;
          groups = group_by (\<lambda>(iv, pay). i_invoice_id iv) kept
      in map (\<lambda>((iv, pay), rest).
                \<lparr>r_invoice_id = i_invoice_id iv, r_amount = i_amount iv,
                 r_due_date = i_due_date iv,
                 r_paid = ifnull (sql_sum (map (\<lambda>(iv', pay'). map_option p_amount pay')
                                             ((iv, pay) # rest))) 0\<rparr>) groups)"

text \<open>
  Modelled from the spec: the id that the store assigns to an inserted ticket
  (\<^verbatim>\<open>cur.lastrowid\<close>; "auto-increment" in section 4.3): one more than the largest id of the
  table, 1 for an empty table.
\<close>

definition next_ticket_id :: "SupportTickets_row list \<Rightarrow> int" where
  "next_ticket_id ts =
     (case ts of [] \<Rightarrow> 1 | t # ts' \<Rightarrow> fold max (map t_ticket_id ts') (t_ticket_id t) + 1)"

definition insert_ticket :: "store \<Rightarrow> (int \<Rightarrow> SupportTickets_row) \<Rightarrow> store \<times> int" where
  "insert_ticket conn vals =
     (let tid = next_ticket_id (SupportTickets conn)
      in (conn\<lparr>SupportTickets := SupportTickets conn @ [vals tid]\<rparr>, tid))"

section \<open>Tool endpoints\<close>

definition list_customers :: "Customer list io" where
  "list_customers =
     io_bind get_db (\<lambda>conn.
     io_bind (execute (fetchall (Customers conn))) (\<lambda>rows.
     io_bind close (\<lambda>_.
     io_return (map Customer_of rows))))"

definition get_customer :: "int \<Rightarrow> Customer io" where
  "get_customer cid =
     io_bind get_db (\<lambda>conn.
     io_bind (execute (fetchone (filter (\<lambda>c. c_customer_id c = cid) (Customers conn)))) (\<lambda>row.
     io_bind close (\<lambda>_.
     case row of
       None \<Rightarrow> io_raise (ValueError (not_found_message cid))
     | Some r \<Rightarrow> io_return (Customer_of r))))"

definition get_billing_summary :: "int \<Rightarrow> BillingSummary io" where
  "get_billing_summary cid =
     io_bind get_db (\<lambda>conn.
     io_bind (execute (fetchone (map (\<lambda>c. 1 :: int)
               (filter (\<lambda>c. c_customer_id c = cid) (Customers conn))))) (\<lambda>cust.
     case cust of
       None \<Rightarrow> io_bind close (\<lambda>_. io_raise (ValueError (not_found_message cid)))
     | Some _ \<Rightarrow>
         io_bind (execute (fetchall (select_invoices conn cid))) (\<lambda>inv_rows.
         io_bind close (\<lambda>_.
         let entries = map (\<lambda>r. \<lparr>invoice_id = r_invoice_id r, amount = r_amount r,
                                   paid = r_paid r,
                                   outstanding = max (r_amount r - r_paid r) 0,
                                   due_date = r_due_date r\<rparr>) inv_rows;
             total = sum_list (map outstanding entries)
         in io_return \<lparr>BillingSummary.customer_id = cid, total_due = total,
                        invoices = entries\<rparr>))))"

definition get_support_tickets :: "int \<Rightarrow> bool \<Rightarrow> SupportTicket list io" where
  "get_support_tickets cid open_only =
     io_bind get_db (\<lambda>conn.
     let of_customer = filter (\<lambda>t. t_customer_id t = cid) (SupportTickets conn);
         selected = (if open_only then filter (\<lambda>t. t_status t \<noteq> ''closed'') of_customer
                     else of_customer)
     in io_bind (execute (fetchall (order_by_desc t_opened_at selected))) (\<lambda>rows.
        io_bind close (\<lambda>_.
        io_return (map SupportTicket_of rows))))"

definition create_support_ticket :: "int \<Rightarrow> string \<Rightarrow> string \<Rightarrow> string \<Rightarrow> SupportTicket io" where
  "create_support_ticket cid subj descr prio =
     (if prio \<notin> set [''low'', ''medium'', ''high'']
      then io_raise (ValueError priority_message)
      else
        io_bind now (\<lambda>t.
        let opened = strftime t in
        io_bind get_db (\<lambda>conn.
        io_bind (execute (fetchone (map (\<lambda>c. 1 :: int)
               (filter (\<lambda>c. c_customer_id c = cid) (Customers conn))))) (\<lambda>cust.
        case cust of
          None \<Rightarrow> io_bind close (\<lambda>_. io_raise (ValueError (not_found_message cid)))
        | Some _ \<Rightarrow>
            io_bind (execute (fetchone (take 1 (map s_subscription_id
                       (filter (\<lambda>s. s_customer_id s = cid) (Subscriptions conn))))))
              (\<lambda>sub.
            let sub_id = sub in
            io_bind (execute (insert_ticket conn (\<lambda>tid.
                       \<lparr>t_ticket_id = tid, t_customer_id = cid,
                        t_subscription_id = sub_id, t_category = ''general'',
                        t_opened_at = opened, t_closed_at = None, t_status = ''open'',
                        t_priority = prio, t_subject = subj, t_description = descr,
                        t_cs_agent = ''AI_Agent''\<rparr>))) (\<lambda>(conn', tid).
            io_bind (commit conn') (\<lambda>_.
            io_bind (execute (fetchone (filter (\<lambda>t. t_ticket_id t = tid) (SupportTickets conn'))))
              (\<lambda>row.
            io_bind close (\<lambda>_.
            case row of
              None \<Rightarrow> io_raise TypeError
            | Some r \<Rightarrow> io_return (SupportTicket_of r))))))))))"

text \<open>The five tools as the server registers them (\<^verbatim>\<open>@mcp.tool\<close>): a call and its answer.\<close>

datatype tool_call =
    List_customers
  | Get_customer int
  | Get_billing_summary int
  | Get_support_tickets int bool
  | Create_support_ticket int string string string

datatype tool_result =
    Customer_list "Customer list"
  | One_customer Customer
  | Billing BillingSummary
  | Ticket_list "SupportTicket list"
  | One_ticket SupportTicket

fun call_tool :: "tool_call \<Rightarrow> tool_result io" where
  "call_tool List_customers = io_bind list_customers (\<lambda>r. io_return (Customer_list r))"
| "call_tool (Get_customer cid) = io_bind (get_customer cid) (\<lambda>r. io_return (One_customer r))"
| "call_tool (Get_billing_summary cid) =
     io_bind (get_billing_summary cid) (\<lambda>r. io_return (Billing r))"
| "call_tool (Get_support_tickets cid open_only) =
     io_bind (get_support_tickets cid open_only) (\<lambda>r. io_return (Ticket_list r))"
| "call_tool (Create_support_ticket cid subj descr prio) =
     io_bind (create_support_ticket cid subj descr prio) (\<lambda>r. io_return (One_ticket r))"

section \<open>Notions the properties are stated with\<close>

text \<open>No statement that the world still has to answer raises.\<close>

definition no_faults :: "world \<Rightarrow> bool" where
  "no_faults w = (True \<notin> set (faults w))"

definition customer_ids :: "store \<Rightarrow> int set" where
  "customer_ids s = set (map c_customer_id (Customers s))"

text \<open>
  Referential integrity of tickets (section 3: a ticket belongs to one customer): the
  \<^verbatim>\<open>customer_id\<close> of every ticket is the id of a customer row.
\<close>

definition tickets_belong_to_customers :: "store \<Rightarrow> bool" where
  "tickets_belong_to_customers s = list_all (\<lambda>t. t_customer_id t \<in> customer_ids s) (SupportTickets s)"

text \<open>The priorities that \<^verbatim>\<open>create_support_ticket\<close> lets through.\<close>

definition allowed_priority :: "string \<Rightarrow> bool" where
  "allowed_priority p = (p = ''low'' \<or> p = ''medium'' \<or> p = ''high'')"

text \<open>Descending order of a list of keys.\<close>

definition descending :: "'k::linorder list \<Rightarrow> bool" where
  "descending ks = sorted_wrt (\<lambda>a b. b \<le> a) ks"

text \<open>The customer's first subscription in store order, if any.\<close>

definition first_subscription :: "store \<Rightarrow> int \<Rightarrow> int option" where
  "first_subscription s cid =
     map_option s_subscription_id (find (\<lambda>sub. s_customer_id sub = cid) (Subscriptions s))"

text \<open>
  The fixed-width format \<^verbatim>\<open>YYYY-MM-DD HH:MM:SS\<close>: a letter of the pattern stands for one
  decimal digit, any other character for itself.
\<close>

definition is_digit :: "char \<Rightarrow> bool" where
  "is_digit c = (c \<in> set ''0123456789'')"

fun matches_format :: "string \<Rightarrow> string \<Rightarrow> bool" where
  "matches_format [] [] = True"
| "matches_format (p # ps) (c # cs) =
     ((if p \<in> set ''YMDHS'' then is_digit c else c = p) \<and> matches_format ps cs)"
| "matches_format _ _ = False"

definition timestamp_format :: "string \<Rightarrow> bool" where
  "timestamp_format s = matches_format ''YYYY-MM-DD HH:MM:SS'' s"

text \<open>
  A reading of the wall clock: the fields of a \<^verbatim>\<open>datetime\<close> in their ranges, with a year
  of four digits, as every present-day reading has (for a year below 1000 the width of
  \<^verbatim>\<open>%Y\<close> depends on the platform's C library).
\<close>

definition clock_reading :: "datetime \<Rightarrow> bool" where
  "clock_reading t =
     (1000 \<le> year t \<and> year t \<le> 9999 \<and> 1 \<le> month t \<and> month t \<le> 12 \<and>
      1 \<le> day t \<and> day t \<le> 31 \<and> hour t \<le> 23 \<and> minute t \<le> 59 \<and> second t \<le> 59)"

text \<open>
  Reading the customer id back out of a not-found message: the decimal number between
  \<^verbatim>\<open>Customer\<close> and the next blank.
\<close>

definition nat_of_digits :: "string \<Rightarrow> nat" where
  "nat_of_digits ds = foldl (\<lambda>a c. 10 * a + (of_char c - 48)) 0 ds"

definition int_of_string :: "string \<Rightarrow> int" where
  "int_of_string s =
     (case s of
        [] \<Rightarrow> 0
      | c # cs \<Rightarrow> if c = CHR ''-'' then - int (nat_of_digits cs) else int (nat_of_digits s))"

definition customer_id_of_message :: "string \<Rightarrow> int" where
  "customer_id_of_message m = int_of_string (takeWhile (\<lambda>c. c \<noteq> CHR '' '') (drop 9 m))"

text \<open>The customer id among the arguments of a tool call.\<close>

fun requested_customer :: "tool_call \<Rightarrow> int option" where
  "requested_customer List_customers = None"
| "requested_customer (Get_customer cid) = Some cid"
| "requested_customer (Get_billing_summary cid) = Some cid"
| "requested_customer (Get_support_tickets cid open_only) = Some cid"
| "requested_customer (Create_support_ticket cid subj descr prio) = Some cid"

text \<open>The priority among the arguments of a tool call.\<close>

fun requested_priority :: "tool_call \<Rightarrow> string option" where
  "requested_priority (Create_support_ticket cid subj descr prio) = Some prio"
| "requested_priority _ = None"

text \<open>
  A store and a world to run the handlers on: the scenario of section 8 of the
  specification (customer 1 with invoice A of 100 and one successful payment of 40, and
  invoice B of 50 with no payment), a failed payment, a second customer without
  subscription, and three tickets.
\<close>

definition demo_store :: store where
  "demo_store =
     \<lparr>Customers =
        [\<lparr>c_customer_id = 1, c_first_name = ''Ada'', c_last_name = ''Moreno'',
          c_email = ''ada@contoso.example'', c_phone = None, c_loyalty_level = ''Gold''\<rparr>,
         \<lparr>c_customer_id = 2, c_first_name = ''Ben'', c_last_name = ''Okafor'',
          c_email = ''ben@contoso.example'', c_phone = Some ''555-0102'',
          c_loyalty_level = ''Bronze''\<rparr>],
      Subscriptions =
        [\<lparr>s_subscription_id = 7, s_customer_id = 1\<rparr>,
         \<lparr>s_subscription_id = 8, s_customer_id = 1\<rparr>],
      Invoices =
        [\<lparr>i_invoice_id = 31, i_subscription_id = 7, i_amount = 100, i_due_date = ''2025-02-01''\<rparr>,
         \<lparr>i_invoice_id = 32, i_subscription_id = 8, i_amount = 50, i_due_date = ''2025-03-01''\<rparr>],
      Payments =
        [\<lparr>p_invoice_id = 31, p_amount = 40, p_status = ''successful''\<rparr>,
         \<lparr>p_invoice_id = 32, p_amount = 50, p_status = ''failed''\<rparr>],
      SupportTickets =
        [\<lparr>t_ticket_id = 1, t_customer_id = 1, t_subscription_id = Some 7,
          t_category = ''billing'', t_opened_at = ''2025-01-05 09:30:00'',
          t_closed_at = Some ''2025-01-06 10:00:00'', t_status = ''closed'',
          t_priority = ''low'', t_subject = ''Invoice copy'', t_description = ''Please resend'',
          t_cs_agent = ''Kim''\<rparr>,
         \<lparr>t_ticket_id = 2, t_customer_id = 1, t_subscription_id = Some 7,
          t_category = ''technical'', t_opened_at = ''2025-01-07 08:00:00'',
          t_closed_at = None, t_status = ''Closed'',
          t_priority = ''high'', t_subject = ''Wifi down'', t_description = ''No signal'',
          t_cs_agent = ''Kim''\<rparr>,
         \<lparr>t_ticket_id = 3, t_customer_id = 1, t_subscription_id = None,
          t_category = ''general'', t_opened_at = ''2025-01-09 17:45:10'',
          t_closed_at = None, t_status = [],
          t_priority = ''medium'', t_subject = ''Question'', t_description = ''Roaming'',
          t_cs_agent = ''AI_Agent''\<rparr>]\<rparr>"

definition demo_world :: world where
  "demo_world =
     \<lparr>db = demo_store,
      clock = \<lparr>year = 2025, month = 3, day = 9, hour = 14, minute = 5, second = 0\<rparr>,
      faults = [], log = []\<rparr>"

text \<open>
  The same world with one more ticket, whose customer id 99 has no customer row: such a
  row is what remains of a customer removed by another program (the handlers open their
  connections without \<^verbatim>\<open>PRAGMA foreign_keys\<close>, so the store does not refuse it).
\<close>

definition orphan_world :: world where
  "orphan_world =
     demo_world\<lparr>db := demo_store\<lparr>SupportTickets := SupportTickets demo_store @
        [\<lparr>t_ticket_id = 9, t_customer_id = 99, t_subscription_id = None,
          t_category = ''general'', t_opened_at = ''2025-02-01 12:00:00'',
          t_closed_at = None, t_status = ''open'',
          t_priority = ''low'', t_subject = ''Left behind'', t_description = ''No owner'',
          t_cs_agent = ''Kim''\<rparr>]\<rparr>\<rparr>"

section \<open>The effect primitives\<close>

lemma db_record_event [simp]: "db (record_event e w) = db w"
  by (simp add: record_event_def)

lemma log_record_event [simp]: "log (record_event e w) = log w @ [e]"
  by (simp add: record_event_def)

lemma clock_record_event [simp]: "clock (record_event e w) = clock w"
  by (simp add: record_event_def)

lemma faults_record_event [simp]: "faults (record_event e w) = faults w"
  by (simp add: record_event_def)

lemma db_next_fault [simp]: "db (snd (next_fault w)) = db w"
  by (simp add: next_fault_def split: list.splits)

lemma log_next_fault [simp]: "log (snd (next_fault w)) = log w"
  by (simp add: next_fault_def split: list.splits)

lemma clock_next_fault [simp]: "clock (snd (next_fault w)) = clock w"
  by (simp add: next_fault_def split: list.splits)

lemma no_faults_record_event [simp]: "no_faults (record_event e w) = no_faults w"
  by (simp add: no_faults_def)

lemma no_faults_next [simp]: "no_faults w \<Longrightarrow> no_faults (snd (next_fault w))"
  by (auto simp: no_faults_def next_fault_def split: list.splits)

lemma no_faults_next_False [simp]: "no_faults w \<Longrightarrow> fst (next_fault w) = False"
  by (auto simp: no_faults_def next_fault_def split: list.splits)

lemma no_faults_db_update [simp]: "no_faults (w\<lparr>db := s\<rparr>) = no_faults w"
  by (simp add: no_faults_def)

section \<open>The handlers, statement by statement\<close>

lemma bind_get_db: "io_bind get_db f w = f (db w) (record_event Connect w)"
  by (simp add: io_bind_def get_db_def)

lemma bind_close: "io_bind close f w = f () (record_event Close w)"
  by (simp add: io_bind_def close_def)

lemma bind_now: "io_bind now f w = f (clock w) w"
  by (simp add: io_bind_def now_def)

lemma bind_execute:
  "io_bind (execute v) f w =
     (if fst (next_fault w) then (Inl StoreError, record_event Execute (snd (next_fault w)))
      else f v (record_event Execute (snd (next_fault w))))"
  by (simp add: io_bind_def execute_def split_beta)

lemma bind_commit:
  "io_bind (commit conn) f w =
     (if fst (next_fault w) then (Inl StoreError, record_event Commit (snd (next_fault w)))
      else f () (record_event Commit ((snd (next_fault w))\<lparr>db := conn\<rparr>)))"
  by (simp add: io_bind_def commit_def split_beta)

lemmas bind_simps = bind_get_db bind_close bind_now bind_execute bind_commit
  io_return_def io_raise_def

lemma snd_bind_return: "snd (io_bind m (\<lambda>r. io_return (f r)) w) = snd (m w)"
  by (simp add: io_bind_def io_return_def split: prod.splits sum.splits)

lemma fst_bind_return_StoreError:
  "fst (io_bind m (\<lambda>r. io_return (f r)) w) = Inl StoreError \<longleftrightarrow> fst (m w) = Inl StoreError"
  by (simp add: io_bind_def io_return_def split: prod.splits sum.splits)

lemma fetchone_None [simp]: "fetchone xs = None \<longleftrightarrow> xs = []"
  by (simp add: fetchone_def split: list.splits)

lemma fetchone_map [simp]: "fetchone (map f xs) = map_option f (fetchone xs)"
  by (simp add: fetchone_def split: list.splits)

lemma fetchone_take1 [simp]: "fetchone (take (Suc 0) xs) = fetchone xs"
  by (cases xs) (simp_all add: fetchone_def)

lemma fetchone_Some_mem: "fetchone xs = Some x \<Longrightarrow> x \<in> set xs"
  by (auto simp: fetchone_def split: list.splits)

lemma fetchone_filter_Some:
  "fetchone (filter P xs) = Some x \<Longrightarrow> x \<in> set xs \<and> P x"
  using fetchone_Some_mem [of "filter P xs" x] by simp

lemma fetchone_distinct:
  "distinct (map k xs) \<Longrightarrow> r \<in> set xs \<Longrightarrow> fetchone (filter (\<lambda>x. k x = k r) xs) = Some r"
  by (induction xs) (auto simp: fetchone_def split: list.splits)

lemma fetchone_customer_None:
  "cid \<notin> customer_ids s \<Longrightarrow>
   fetchone (filter (\<lambda>c. c_customer_id c = cid) (Customers s)) = None"
  by (auto simp: filter_empty_conv customer_ids_def)

lemma fetchone_customer_Some:
  "cid \<in> customer_ids s \<Longrightarrow>
   \<exists>r. fetchone (filter (\<lambda>c. c_customer_id c = cid) (Customers s)) = Some r"
  by (cases "fetchone (filter (\<lambda>c. c_customer_id c = cid) (Customers s))")
     (auto simp: customer_ids_def filter_empty_conv)

lemma order_by_desc_Nil [simp]: "order_by_desc k [] = []"
  by (simp add: order_by_desc_def)

text \<open>The lookups when no statement raises.\<close>

lemma get_customer_absent:
  "no_faults w \<Longrightarrow> cid \<notin> customer_ids (db w) \<Longrightarrow>
   fst (get_customer cid w) = Inl (ValueError (not_found_message cid))"
  by (simp add: get_customer_def bind_simps fetchone_customer_None)

lemma get_customer_present:
  "no_faults w \<Longrightarrow>
   fetchone (filter (\<lambda>c. c_customer_id c = cid) (Customers (db w))) = Some r \<Longrightarrow>
   fst (get_customer cid w) = Inr (Customer_of r)"
  by (simp add: get_customer_def bind_simps)

lemma get_billing_summary_absent:
  "no_faults w \<Longrightarrow> cid \<notin> customer_ids (db w) \<Longrightarrow>
   fst (get_billing_summary cid w) = Inl (ValueError (not_found_message cid))"
  by (simp add: get_billing_summary_def bind_simps fetchone_customer_None)

lemma get_support_tickets_ok:
  "no_faults w \<Longrightarrow>
   fst (get_support_tickets cid open_only w) =
     Inr (map SupportTicket_of (order_by_desc t_opened_at
       (if open_only
        then filter (\<lambda>t. t_status t \<noteq> ''closed'')
               (filter (\<lambda>t. t_customer_id t = cid) (SupportTickets (db w)))
        else filter (\<lambda>t. t_customer_id t = cid) (SupportTickets (db w)))))"
  by (simp add: get_support_tickets_def bind_simps fetchall_def Let_def)

text \<open>
  \<^verbatim>\<open>create_support_ticket\<close> with its statements laid out: the worlds \<open>w1\<close> to \<open>w6\<close> are
  those after \<^verbatim>\<open>get_db\<close>, the three statements, the commit and the last query.
\<close>

lemma priority_check:
  "(prio \<notin> set [''low'', ''medium'', ''high'']) = (\<not> allowed_priority prio)"
  by (auto simp: allowed_priority_def)

lemma create_support_ticket_unfold:
  "create_support_ticket cid subj descr prio w =
     (if \<not> allowed_priority prio then (Inl (ValueError priority_message), w)
      else
        let w1 = record_event Connect w; w2 = record_event Execute (snd (next_fault w1)) in
        if fst (next_fault w1) then (Inl StoreError, w2)
        else if cid \<notin> customer_ids (db w)
        then (Inl (ValueError (not_found_message cid)), record_event Close w2)
        else
          let w3 = record_event Execute (snd (next_fault w2)) in
          if fst (next_fault w2) then (Inl StoreError, w3)
          else
            let w4 = record_event Execute (snd (next_fault w3));
                row = \<lparr>t_ticket_id = next_ticket_id (SupportTickets (db w)), t_customer_id = cid,
                       t_subscription_id = map_option s_subscription_id
                          (fetchone (filter (\<lambda>s. s_customer_id s = cid) (Subscriptions (db w)))),
                       t_category = ''general'', t_opened_at = strftime (clock w),
                       t_closed_at = None, t_status = ''open'', t_priority = prio,
                       t_subject = subj, t_description = descr, t_cs_agent = ''AI_Agent''\<rparr>;
                conn' = (db w)\<lparr>SupportTickets := SupportTickets (db w) @ [row]\<rparr> in
            if fst (next_fault w3) then (Inl StoreError, w4)
            else
              let w5 = record_event Commit ((snd (next_fault w4))\<lparr>db := conn'\<rparr>) in
              if fst (next_fault w4) then (Inl StoreError, record_event Commit (snd (next_fault w4)))
              else
                let w6 = record_event Execute (snd (next_fault w5)) in
                if fst (next_fault w5) then (Inl StoreError, w6)
                else (case fetchone (filter (\<lambda>t. t_ticket_id t = t_ticket_id row)
                                       (SupportTickets conn')) of
                        None \<Rightarrow> (Inl TypeError, record_event Close w6)
                      | Some r \<Rightarrow> (Inr (SupportTicket_of r), record_event Close w6)))"
proof (cases "cid \<in> customer_ids (db w)")
  case True
  then obtain r where
    "fetchone (filter (\<lambda>c. c_customer_id c = cid) (Customers (db w))) = Some r"
    using fetchone_customer_Some by blast
  with True show ?thesis
    unfolding create_support_ticket_def priority_check
    by (simp add: bind_simps insert_ticket_def Let_def split: option.splits)
next
  case False
  then show ?thesis
    unfolding create_support_ticket_def priority_check
    by (simp add: bind_simps fetchone_customer_None Let_def)
qed

lemma create_support_ticket_absent:
  "no_faults w \<Longrightarrow> allowed_priority prio \<Longrightarrow> cid \<notin> customer_ids (db w) \<Longrightarrow>
   fst (create_support_ticket cid subj descr prio w) = Inl (ValueError (not_found_message cid))"
  by (simp add: create_support_ticket_unfold Let_def)

lemma messages_differ: "priority_message \<noteq> not_found_message cid"
  by (simp add: priority_message_def not_found_message_def)

section \<open>What the handlers do to the store and to connections\<close>

lemma db_list_customers: "db (snd (list_customers w)) = db w"
  by (simp add: list_customers_def bind_simps)

lemma db_get_customer: "db (snd (get_customer cid w)) = db w"
  by (simp add: get_customer_def bind_simps split: option.splits)

lemma db_get_billing_summary: "db (snd (get_billing_summary cid w)) = db w"
  by (simp add: get_billing_summary_def bind_simps Let_def split: option.splits)

lemma db_get_support_tickets: "db (snd (get_support_tickets cid open_only w)) = db w"
  by (simp add: get_support_tickets_def bind_simps Let_def)

lemma db_create_support_ticket:
  "db (snd (create_support_ticket cid subj descr prio w)) = db w \<or>
   (\<exists>row. db (snd (create_support_ticket cid subj descr prio w)) =
      (db w)\<lparr>SupportTickets := SupportTickets (db w) @ [row]\<rparr>)"
  by (auto simp: create_support_ticket_unfold Let_def split: option.splits)

text \<open>Ticket creation keeps every ticket with a customer row.\<close>

lemma customer_ids_append_ticket [simp]:
  "customer_ids (s\<lparr>SupportTickets := ts\<rparr>) = customer_ids s"
  by (simp add: customer_ids_def)

lemma create_support_ticket_keeps_tickets_with_customers:
  assumes "tickets_belong_to_customers (db w)"
  shows "tickets_belong_to_customers (db (snd (create_support_ticket cid subj descr prio w)))"
  using assms
  by (simp add: create_support_ticket_unfold Let_def tickets_belong_to_customers_def
      split: option.splits)

lemma open_connections_append [simp]:
  "open_connections (l @ l') = open_connections l + open_connections l'"
  by (simp add: open_connections_def)

lemma open_connections_Cons [simp]:
  "open_connections [] = 0"
  "open_connections (Connect # l) = open_connections l + 1"
  "open_connections (Close # l) = open_connections l - 1"
  "open_connections (Execute # l) = open_connections l"
  "open_connections (Commit # l) = open_connections l"
  by (simp_all add: open_connections_def)

lemma connections_lookup:
  "open_connections (log (snd (list_customers w))) =
     open_connections (log w) + (if fst (list_customers w) = Inl StoreError then 1 else 0)"
  "open_connections (log (snd (get_customer cid w))) =
     open_connections (log w) + (if fst (get_customer cid w) = Inl StoreError then 1 else 0)"
  "open_connections (log (snd (get_billing_summary cid w))) =
     open_connections (log w) +
     (if fst (get_billing_summary cid w) = Inl StoreError then 1 else 0)"
  "open_connections (log (snd (get_support_tickets cid open_only w))) =
     open_connections (log w) +
     (if fst (get_support_tickets cid open_only w) = Inl StoreError then 1 else 0)"
  by (simp_all add: list_customers_def get_customer_def get_billing_summary_def
      get_support_tickets_def bind_simps Let_def split: option.splits)

lemma connections_create:
  "open_connections (log (snd (create_support_ticket cid subj descr prio w))) =
     open_connections (log w) +
     (if fst (create_support_ticket cid subj descr prio w) = Inl StoreError then 1 else 0)"
  by (simp add: create_support_ticket_unfold Let_def split: option.splits)

section \<open>The example world\<close>

lemma no_faults_demo [simp]: "no_faults demo_world"
  by (simp add: no_faults_def demo_world_def)

lemma customer_ids_demo [simp]: "customer_ids (db demo_world) = {1, 2}"
  by (auto simp: customer_ids_def demo_world_def demo_store_def)

lemma tickets_demo [simp]: "tickets_belong_to_customers (db demo_world)"
  by (simp add: tickets_belong_to_customers_def customer_ids_def demo_world_def demo_store_def)

section \<open>Invalid priority (C3, C10)\<close>

text \<open>
  C3. A call of \<^verbatim>\<open>create_support_ticket\<close> whose priority is none of \<^verbatim>\<open>low\<close>, \<^verbatim>\<open>medium\<close>,
  \<^verbatim>\<open>high\<close> raises the priority \<^verbatim>\<open>ValueError\<close> and leaves the whole world as it was: the
  store has no new row, and the log has no new event, so no connection was opened and no
  statement issued.
\<close>

theorem invalid_priority_rejected_untouched:
  "\<not> allowed_priority prio \<Longrightarrow>
   create_support_ticket cid subj descr prio w = (Inl (ValueError priority_message), w)"
  by (simp add: create_support_ticket_unfold)

theorem invalid_priority_rejected_untouched_witness:
  "\<not> allowed_priority ''urgent'' \<and>
   create_support_ticket 1 ''x'' ''y'' ''urgent'' demo_world =
     (Inl (ValueError priority_message), demo_world)"
proof -
  have h: "\<not> allowed_priority ''urgent''"
    by (simp add: allowed_priority_def)
  from invalid_priority_rejected_untouched [OF h] h show ?thesis
    by blast
qed

text \<open>
  C10. The priority check comes before the customer check: with a priority outside the
  three allowed values, whatever the customer id and the store, the result is the priority
  \<^verbatim>\<open>ValueError\<close>, it is not a not-found error (for any id), and the log is as before, so
  no connection was opened.
\<close>

theorem priority_check_precedes_customer_check:
  "\<not> allowed_priority prio \<Longrightarrow>
   fst (create_support_ticket cid subj descr prio w) = Inl (ValueError priority_message) \<and>
   fst (create_support_ticket cid subj descr prio w) \<noteq>
     Inl (ValueError (not_found_message cid')) \<and>
   log (snd (create_support_ticket cid subj descr prio w)) = log w"
  by (simp add: create_support_ticket_unfold messages_differ)

theorem priority_check_precedes_customer_check_witness:
  "\<not> allowed_priority ''urgent'' \<and> allowed_priority ''high'' \<and>
   99 \<notin> customer_ids (db demo_world) \<and>
   fst (create_support_ticket 99 ''x'' ''y'' ''urgent'' demo_world) =
     Inl (ValueError priority_message) \<and>
   fst (create_support_ticket 99 ''x'' ''y'' ''urgent'' demo_world) \<noteq>
     Inl (ValueError (not_found_message 99)) \<and>
   log (snd (create_support_ticket 99 ''x'' ''y'' ''urgent'' demo_world)) = log demo_world \<and>
   fst (create_support_ticket 99 ''x'' ''y'' ''high'' demo_world) =
     Inl (ValueError (not_found_message 99))"
proof -
  have h: "\<not> allowed_priority ''urgent''" and g: "allowed_priority ''high''"
    by (simp_all add: allowed_priority_def)
  have a: "99 \<notin> customer_ids (db demo_world)"
    by simp
  from priority_check_precedes_customer_check [OF h, of 99 "''x''" "''y''" demo_world 99]
    create_support_ticket_absent [OF no_faults_demo g a] h g a
  show ?thesis by blast
qed

section \<open>Ticket creation for an unknown customer (C6)\<close>

text \<open>
  C6. A call of \<^verbatim>\<open>create_support_ticket\<close> with an allowed priority and a customer id with
  no customer row leaves the store as it was; it raises the not-found \<^verbatim>\<open>ValueError\<close>
  carrying the id, unless the customer query itself raised a store error, which it does
  not when no statement raises.
\<close>

theorem unknown_customer_no_ticket:
  "allowed_priority prio \<Longrightarrow> cid \<notin> customer_ids (db w) \<Longrightarrow>
   db (snd (create_support_ticket cid subj descr prio w)) = db w \<and>
   (fst (create_support_ticket cid subj descr prio w) = Inl (ValueError (not_found_message cid)) \<or>
    fst (create_support_ticket cid subj descr prio w) = Inl StoreError) \<and>
   (no_faults w \<longrightarrow>
      fst (create_support_ticket cid subj descr prio w) =
        Inl (ValueError (not_found_message cid)))"
  by (simp add: create_support_ticket_unfold Let_def)

theorem unknown_customer_no_ticket_witness:
  "allowed_priority ''high'' \<and> 99 \<notin> customer_ids (db demo_world) \<and> no_faults demo_world \<and>
   db (snd (create_support_ticket 99 ''x'' ''y'' ''high'' demo_world)) = db demo_world \<and>
   fst (create_support_ticket 99 ''x'' ''y'' ''high'' demo_world) =
     Inl (ValueError (not_found_message 99))"
proof -
  have g: "allowed_priority ''high''"
    by (simp add: allowed_priority_def)
  have a: "99 \<notin> customer_ids (db demo_world)"
    by simp
  from unknown_customer_no_ticket [OF g a, of "''x''" "''y''"] g a no_faults_demo
  show ?thesis by blast
qed

section \<open>The billing summary of a known customer\<close>

lemma get_billing_summary_present:
  assumes "no_faults w" "cid \<in> customer_ids (db w)"
  shows "fst (get_billing_summary cid w) =
     Inr \<lparr>BillingSummary.customer_id = cid,
          total_due = sum_list (map (\<lambda>r. max (r_amount r - r_paid r) 0) (select_invoices (db w) cid)),
          invoices = map (\<lambda>r. \<lparr>invoice_id = r_invoice_id r, amount = r_amount r,
                                 paid = r_paid r,
                                 outstanding = max (r_amount r - r_paid r) 0,
                                 due_date = r_due_date r\<rparr>) (select_invoices (db w) cid)\<rparr>"
proof -
  obtain r where "fetchone (filter (\<lambda>c. c_customer_id c = cid) (Customers (db w))) = Some r"
    using assms(2) fetchone_customer_Some by blast
  with assms(1) show ?thesis
    by (simp add: get_billing_summary_def bind_simps fetchall_def Let_def o_def)
qed

section \<open>Ticket listing (C5)\<close>

lemma descending_order_by_desc: "descending (map k (order_by_desc k xs))"
proof -
  have "sorted (map k (sort_key k (rev xs)))"
    by simp
  then have "sorted_wrt (\<lambda>a b. b \<le> a) (rev (map k (sort_key k (rev xs))))"
    by (simp add: sorted_wrt_rev)
  then show ?thesis
    by (simp add: descending_def order_by_desc_def rev_map)
qed

lemma mset_order_by_desc [simp]: "mset (order_by_desc k xs) = mset xs"
  by (simp add: order_by_desc_def)

lemma opened_at_SupportTicket_of [simp]: "opened_at (SupportTicket_of r) = t_opened_at r"
  by (simp add: SupportTicket_of_def)

text \<open>
  C5. When no statement raises, for every customer id and store:
  \<^verbatim>\<open>get_support_tickets\<close> with \<^verbatim>\<open>open_only\<close> true returns exactly the tickets of that
  customer whose status is not the string \<^verbatim>\<open>closed\<close> (each once; the comparison is that of
  strings, so \<^verbatim>\<open>Closed\<close> and the empty status are kept), with \<^verbatim>\<open>open_only\<close> false all
  tickets of the customer, and both results are in descending order of \<^verbatim>\<open>opened_at\<close> under
  the lexicographic order of strings.
\<close>

theorem open_tickets_exact_and_descending:
  assumes "no_faults w"
  shows "(\<exists>ts. fst (get_support_tickets cid True w) = Inr ts \<and>
            mset ts = mset (map SupportTicket_of
              (filter (\<lambda>t. t_customer_id t = cid \<and> t_status t \<noteq> ''closed'')
                 (SupportTickets (db w)))) \<and>
            descending (map opened_at ts)) \<and>
         (\<exists>ts. fst (get_support_tickets cid False w) = Inr ts \<and>
            mset ts = mset (map SupportTicket_of
              (filter (\<lambda>t. t_customer_id t = cid) (SupportTickets (db w)))) \<and>
            descending (map opened_at ts))"
  using assms
  by (simp add: get_support_tickets_ok descending_order_by_desc o_def conj_commute)

theorem open_tickets_exact_and_descending_witness:
  "no_faults demo_world \<and>
   map t_status (filter (\<lambda>t. t_customer_id t = 1) (SupportTickets (db demo_world))) =
     [''closed'', ''Closed'', []] \<and>
   map t_ticket_id (filter (\<lambda>t. t_customer_id t = 1 \<and> t_status t \<noteq> ''closed'')
     (SupportTickets (db demo_world))) = [2, 3] \<and>
   (\<exists>ts. fst (get_support_tickets 1 True demo_world) = Inr ts \<and>
      mset (map ticket_id ts) = {#2, 3#} \<and> descending (map opened_at ts)) \<and>
   (\<exists>ts. fst (get_support_tickets 1 False demo_world) = Inr ts \<and>
      mset (map ticket_id ts) = {#1, 2, 3#} \<and> descending (map opened_at ts))"
proof -
  have rows: "map t_status (filter (\<lambda>t. t_customer_id t = 1) (SupportTickets (db demo_world))) =
      [''closed'', ''Closed'', []]"
    "map t_ticket_id (filter (\<lambda>t. t_customer_id t = 1 \<and> t_status t \<noteq> ''closed'')
       (SupportTickets (db demo_world))) = [2, 3]"
    "map t_ticket_id (filter (\<lambda>t. t_customer_id t = 1) (SupportTickets (db demo_world))) =
       [1, 2, 3]"
    by (simp_all add: demo_world_def demo_store_def)
  have ids: "mset (map ticket_id ts) = mset (map t_ticket_id rs)"
    if "mset ts = mset (map SupportTicket_of rs)" for ts rs
  proof -
    have "mset (map ticket_id ts) = image_mset ticket_id (mset (map SupportTicket_of rs))"
      using that by (metis mset_map)
    then show ?thesis
      by (simp add: SupportTicket_of_def multiset.map_comp o_def)
  qed
  from open_tickets_exact_and_descending [OF no_faults_demo, of 1]
  obtain ts ts' where
    ts: "fst (get_support_tickets 1 True demo_world) = Inr ts"
      "mset ts = mset (map SupportTicket_of
         (filter (\<lambda>t. t_customer_id t = 1 \<and> t_status t \<noteq> ''closed'')
            (SupportTickets (db demo_world))))"
      "descending (map opened_at ts)"
    and ts': "fst (get_support_tickets 1 False demo_world) = Inr ts'"
      "mset ts' = mset (map SupportTicket_of
         (filter (\<lambda>t. t_customer_id t = 1) (SupportTickets (db demo_world))))"
      "descending (map opened_at ts')"
    by blast
  from ids [OF ts(2)] rows(2) have "mset (map ticket_id ts) = {#2, 3#}"
    by simp
  moreover from ids [OF ts'(2)] rows(3) have "mset (map ticket_id ts') = {#1, 2, 3#}"
    by simp
  ultimately show ?thesis
    using ts(1,3) ts'(1,3) rows(1,2) no_faults_demo by blast
qed

section \<open>Unknown customers (C2)\<close>

lemma selected_tickets:
  "(if open_only
    then filter (\<lambda>t. t_status t \<noteq> ''closed'') (filter (\<lambda>t. t_customer_id t = cid) ts)
    else filter (\<lambda>t. t_customer_id t = cid) ts) =
   filter (\<lambda>t. t_customer_id t = cid \<and> (open_only \<longrightarrow> t_status t \<noteq> ''closed'')) ts"
  by (simp add: conj_commute)

lemma get_support_tickets_fields:
  assumes "no_faults w"
  shows "\<exists>ts. fst (get_support_tickets cid open_only w) = Inr ts \<and>
           mset (map (\<lambda>t. (ticket_id t, SupportTicket.customer_id t, subject t, description t,
                            status t, priority t, opened_at t, closed_at t)) ts) =
           mset (map (\<lambda>r. (t_ticket_id r, t_customer_id r, t_subject r, t_description r,
                            t_status r, t_priority r, t_opened_at r, t_closed_at r))
                   (filter (\<lambda>t. t_customer_id t = cid \<and> (open_only \<longrightarrow> t_status t \<noteq> ''closed''))
                      (SupportTickets (db w))))"
  using assms
  by (simp add: get_support_tickets_ok selected_tickets SupportTicket_of_def o_def
      multiset.map_comp del: if_split split del: if_split)

lemma no_faults_orphan [simp]: "no_faults orphan_world"
  by (simp add: no_faults_def orphan_world_def demo_world_def)

text \<open>
  C2, as the code has it. When no statement raises: for a customer id with no row in
  \<^verbatim>\<open>Customers\<close>, \<^verbatim>\<open>get_customer\<close> and \<^verbatim>\<open>get_billing_summary\<close> raise the not-found
  \<^verbatim>\<open>ValueError\<close> whose message carries that id, while \<^verbatim>\<open>get_support_tickets\<close>, with
  \<^verbatim>\<open>open_only\<close> true or false, raises nothing and returns the tickets stored under that
  id, field by field (those with a status other than \<^verbatim>\<open>closed\<close> when \<^verbatim>\<open>open_only\<close>): the
  empty list when no ticket row carries the id, as is the case when every ticket belongs to
  a customer row. For the id of a customer row, \<^verbatim>\<open>get_customer\<close> returns a \<^verbatim>\<open>Customer\<close>
  with that id and the name, email, phone and loyalty level of a row with that id, which is
  that very row when customer ids are unique.
\<close>

theorem unknown_customer_lookups:
  assumes "no_faults w"
  shows "(cid \<notin> customer_ids (db w) \<longrightarrow>
            fst (get_customer cid w) = Inl (ValueError (not_found_message cid)) \<and>
            fst (get_billing_summary cid w) = Inl (ValueError (not_found_message cid)) \<and>
            (\<forall>open_only. \<exists>ts.
               fst (get_support_tickets cid open_only w) = Inr ts \<and>
               mset (map (\<lambda>t. (ticket_id t, SupportTicket.customer_id t, subject t,
                                description t, status t, priority t, opened_at t, closed_at t))
                      ts) =
               mset (map (\<lambda>r. (t_ticket_id r, t_customer_id r, t_subject r, t_description r,
                                t_status r, t_priority r, t_opened_at r, t_closed_at r))
                      (filter (\<lambda>t. t_customer_id t = cid \<and>
                                    (open_only \<longrightarrow> t_status t \<noteq> ''closed''))
                         (SupportTickets (db w)))) \<and>
               (cid \<notin> set (map t_customer_id (SupportTickets (db w))) \<longrightarrow> ts = []) \<and>
               (tickets_belong_to_customers (db w) \<longrightarrow> ts = []))) \<and>
         (\<forall>r \<in> set (Customers (db w)). c_customer_id r = cid \<longrightarrow>
            (\<exists>c. \<exists>r' \<in> set (Customers (db w)).
               fst (get_customer cid w) = Inr c \<and> c_customer_id r' = cid \<and>
               Customer.customer_id c = cid \<and> first_name c = c_first_name r' \<and>
               last_name c = c_last_name r' \<and> email c = c_email r' \<and>
               phone c = c_phone r' \<and> loyalty_level c = c_loyalty_level r' \<and>
               (distinct (map c_customer_id (Customers (db w))) \<longrightarrow> r' = r)))"
proof (intro conjI impI ballI allI)
  assume "cid \<notin> customer_ids (db w)"
  with assms show "fst (get_customer cid w) = Inl (ValueError (not_found_message cid))"
    by (simp add: get_customer_absent)
next
  assume "cid \<notin> customer_ids (db w)"
  with assms show "fst (get_billing_summary cid w) = Inl (ValueError (not_found_message cid))"
    by (simp add: get_billing_summary_absent)
next
  fix open_only
  assume absent: "cid \<notin> customer_ids (db w)"
  let ?rows = "filter (\<lambda>t. t_customer_id t = cid \<and> (open_only \<longrightarrow> t_status t \<noteq> ''closed''))
                 (SupportTickets (db w))"
  from get_support_tickets_fields [OF assms, of cid open_only] obtain ts where
    ts: "fst (get_support_tickets cid open_only w) = Inr ts"
      "mset (map (\<lambda>t. (ticket_id t, SupportTicket.customer_id t, subject t, description t,
                       status t, priority t, opened_at t, closed_at t)) ts) =
       mset (map (\<lambda>r. (t_ticket_id r, t_customer_id r, t_subject r, t_description r,
                       t_status r, t_priority r, t_opened_at r, t_closed_at r)) ?rows)"
    by blast
  have empty: "ts = []" if "?rows = []"
    using ts(2) that by simp
  have none: "?rows = []" if "cid \<notin> set (map t_customer_id (SupportTickets (db w)))"
    using that by (auto simp: filter_empty_conv)
  have integ: "?rows = []" if "tickets_belong_to_customers (db w)"
    using that absent
    by (auto simp: filter_empty_conv tickets_belong_to_customers_def list_all_iff)
  from ts empty none integ
  show "\<exists>ts. fst (get_support_tickets cid open_only w) = Inr ts \<and>
          mset (map (\<lambda>t. (ticket_id t, SupportTicket.customer_id t, subject t, description t,
                          status t, priority t, opened_at t, closed_at t)) ts) =
          mset (map (\<lambda>r. (t_ticket_id r, t_customer_id r, t_subject r, t_description r,
                          t_status r, t_priority r, t_opened_at r, t_closed_at r)) ?rows) \<and>
          (cid \<notin> set (map t_customer_id (SupportTickets (db w))) \<longrightarrow> ts = []) \<and>
          (tickets_belong_to_customers (db w) \<longrightarrow> ts = [])"
    by blast
next
  fix r assume r: "r \<in> set (Customers (db w))" "c_customer_id r = cid"
  then have "cid \<in> customer_ids (db w)"
    by (auto simp: customer_ids_def)
  then obtain r' where
    r': "fetchone (filter (\<lambda>c. c_customer_id c = cid) (Customers (db w))) = Some r'"
    using fetchone_customer_Some by blast
  then have mem: "r' \<in> set (Customers (db w))" "c_customer_id r' = cid"
    using fetchone_filter_Some [OF r'] by simp_all
  have res: "fst (get_customer cid w) = Inr (Customer_of r')"
    using assms r' by (simp add: get_customer_present)
  have same: "r' = r" if "distinct (map c_customer_id (Customers (db w)))"
    using fetchone_distinct [OF that r(1)] r' r(2) by simp
  show "\<exists>c. \<exists>r' \<in> set (Customers (db w)).
          fst (get_customer cid w) = Inr c \<and> c_customer_id r' = cid \<and>
          Customer.customer_id c = cid \<and> first_name c = c_first_name r' \<and>
          last_name c = c_last_name r' \<and> email c = c_email r' \<and>
          phone c = c_phone r' \<and> loyalty_level c = c_loyalty_level r' \<and>
          (distinct (map c_customer_id (Customers (db w))) \<longrightarrow> r' = r)"
    by (rule exI [of _ "Customer_of r'"], rule bexI [of _ r'])
       (use res mem same in \<open>simp_all add: Customer_of_def\<close>)
qed

theorem unknown_customer_lookups_witness:
  "no_faults demo_world \<and> 99 \<notin> customer_ids (db demo_world) \<and>
   tickets_belong_to_customers (db demo_world) \<and>
   fst (get_customer 99 demo_world) = Inl (ValueError (not_found_message 99)) \<and>
   fst (get_billing_summary 99 demo_world) = Inl (ValueError (not_found_message 99)) \<and>
   fst (get_support_tickets 99 True demo_world) = Inr [] \<and>
   fst (get_support_tickets 99 False demo_world) = Inr [] \<and>
   hd (Customers (db demo_world)) \<in> set (Customers (db demo_world)) \<and>
   c_customer_id (hd (Customers (db demo_world))) = 1 \<and>
   distinct (map c_customer_id (Customers (db demo_world))) \<and>
   (\<exists>c. fst (get_customer 1 demo_world) = Inr c \<and> Customer.customer_id c = 1 \<and>
      first_name c = ''Ada'' \<and> last_name c = ''Moreno'' \<and> email c = ''ada@contoso.example'' \<and>
      phone c = None \<and> loyalty_level c = ''Gold'')"
proof -
  have a: "99 \<notin> customer_ids (db demo_world)"
    by simp
  have m: "hd (Customers (db demo_world)) \<in> set (Customers (db demo_world))"
    and i: "c_customer_id (hd (Customers (db demo_world))) = 1"
    and d: "distinct (map c_customer_id (Customers (db demo_world)))"
    by (simp_all add: demo_world_def demo_store_def)
  have ada: "c_first_name (hd (Customers (db demo_world))) = ''Ada''"
    "c_last_name (hd (Customers (db demo_world))) = ''Moreno''"
    "c_email (hd (Customers (db demo_world))) = ''ada@contoso.example''"
    "c_phone (hd (Customers (db demo_world))) = None"
    "c_loyalty_level (hd (Customers (db demo_world))) = ''Gold''"
    by (simp_all add: demo_world_def demo_store_def)
  note inst = unknown_customer_lookups [OF no_faults_demo]
  from inst [of 99] a
  have absent: "fst (get_customer 99 demo_world) = Inl (ValueError (not_found_message 99))"
    "fst (get_billing_summary 99 demo_world) = Inl (ValueError (not_found_message 99))"
    by blast+
  from inst [of 99] a tickets_demo
  have "\<exists>ts. fst (get_support_tickets 99 oo demo_world) = Inr ts \<and> ts = []" for oo
    by blast
  then have empty: "fst (get_support_tickets 99 True demo_world) = Inr []"
    "fst (get_support_tickets 99 False demo_world) = Inr []"
    by auto
  from inst [of 1] m i d
  obtain c r' where c: "r' \<in> set (Customers (db demo_world))"
    "fst (get_customer 1 demo_world) = Inr c" "Customer.customer_id c = 1"
    "first_name c = c_first_name r'" "last_name c = c_last_name r'" "email c = c_email r'"
    "phone c = c_phone r'" "loyalty_level c = c_loyalty_level r'"
    "r' = hd (Customers (db demo_world))"
    by blast
  then have "\<exists>c. fst (get_customer 1 demo_world) = Inr c \<and> Customer.customer_id c = 1 \<and>
      first_name c = ''Ada'' \<and> last_name c = ''Moreno'' \<and> email c = ''ada@contoso.example'' \<and>
      phone c = None \<and> loyalty_level c = ''Gold''"
    using ada by auto
  with absent empty a m i d show ?thesis
    by simp
qed

text \<open>
  C2 as stated fails: customer id 99 has no customer row, \<^verbatim>\<open>get_customer\<close> raises the
  not-found error, and \<^verbatim>\<open>get_support_tickets\<close> returns the ticket stored under 99, not
  the empty list.
\<close>

theorem orphan_tickets_counterexample:
  "no_faults orphan_world \<and> 99 \<notin> customer_ids (db orphan_world) \<and>
   fst (get_customer 99 orphan_world) = Inl (ValueError (not_found_message 99)) \<and>
   fst (get_support_tickets 99 False orphan_world) =
     Inr [\<lparr>ticket_id = 9, SupportTicket.customer_id = 99, subject = ''Left behind'',
           description = ''No owner'', status = ''open'', priority = ''low'',
           opened_at = ''2025-02-01 12:00:00'', closed_at = None\<rparr>] \<and>
   fst (get_support_tickets 99 True orphan_world) =
     Inr [\<lparr>ticket_id = 9, SupportTicket.customer_id = 99, subject = ''Left behind'',
           description = ''No owner'', status = ''open'', priority = ''low'',
           opened_at = ''2025-02-01 12:00:00'', closed_at = None\<rparr>] \<and>
   fst (get_support_tickets 99 False orphan_world) \<noteq> Inr []"
proof -
  have a: "99 \<notin> customer_ids (db orphan_world)"
    by (simp add: customer_ids_def orphan_world_def demo_world_def demo_store_def)
  have "fst (get_customer 99 orphan_world) = Inl (ValueError (not_found_message 99))"
    using a by (simp add: get_customer_absent)
  moreover have "fst (get_support_tickets 99 False orphan_world) =
     Inr [\<lparr>ticket_id = 9, SupportTicket.customer_id = 99, subject = ''Left behind'',
           description = ''No owner'', status = ''open'', priority = ''low'',
           opened_at = ''2025-02-01 12:00:00'', closed_at = None\<rparr>]"
    unfolding get_support_tickets_ok [OF no_faults_orphan]
    by (simp add: orphan_world_def demo_world_def demo_store_def
        order_by_desc_def SupportTicket_of_def)
  moreover have "fst (get_support_tickets 99 True orphan_world) =
     Inr [\<lparr>ticket_id = 9, SupportTicket.customer_id = 99, subject = ''Left behind'',
           description = ''No owner'', status = ''open'', priority = ''low'',
           opened_at = ''2025-02-01 12:00:00'', closed_at = None\<rparr>]"
    unfolding get_support_tickets_ok [OF no_faults_orphan]
    by (simp add: orphan_world_def demo_world_def demo_store_def
        order_by_desc_def SupportTicket_of_def)
  ultimately show ?thesis
    using a by simp
qed

section \<open>The inserted ticket\<close>

lemma next_ticket_id_greater: "t \<in> set ts \<Longrightarrow> t_ticket_id t < next_ticket_id ts"
proof (cases ts)
  case Nil
  assume "t \<in> set ts"
  with Nil show ?thesis by simp
next
  case (Cons a as)
  assume t: "t \<in> set ts"
  have "fold max (map t_ticket_id as) (t_ticket_id a) = Max (set (map t_ticket_id ts))"
    using Max.set_eq_fold [of "t_ticket_id a" "map t_ticket_id as"] Cons by simp
  moreover have "t_ticket_id t \<le> Max (set (map t_ticket_id ts))"
    using t by (intro Max_ge) auto
  ultimately show ?thesis
    using Cons by (simp add: next_ticket_id_def)
qed

lemma reread_inserted:
  "t_ticket_id row = next_ticket_id ts \<Longrightarrow>
   fetchone (filter (\<lambda>t. t_ticket_id t = t_ticket_id row) (ts @ [row])) = Some row"
proof -
  assume a: "t_ticket_id row = next_ticket_id ts"
  have "filter (\<lambda>t. t_ticket_id t = t_ticket_id row) ts = []"
    using next_ticket_id_greater [of _ ts] a by (fastforce simp: filter_empty_conv)
  then show ?thesis
    by (simp add: fetchone_def)
qed

lemma fetchone_filter_find: "fetchone (filter P xs) = find P xs"
  by (induction xs) (auto simp: fetchone_def)

section \<open>The timestamp\<close>

lemma digit_char_cases:
  "digit_char n \<in> set ''0123456789''"
proof -
  have "n mod 10 < length ''0123456789''"
    by simp
  then show ?thesis
    unfolding digit_char_def by (rule nth_mem)
qed

lemma is_digit_digit_char [simp]: "is_digit (digit_char n)"
  using digit_char_cases by (simp add: is_digit_def)

lemma digit_char_0 [simp]: "digit_char 0 = CHR ''0''"
  by (simp add: digit_char_def)

lemma str_nat_small: "n < 10 \<Longrightarrow> str_nat n = [digit_char n]"
  by (simp add: str_nat.simps)

lemma str_nat_2: "10 \<le> n \<Longrightarrow> n < 100 \<Longrightarrow> str_nat n = [digit_char (n div 10), digit_char n]"
  by (subst str_nat.simps) (simp add: str_nat_small)

lemma str_nat_3:
  "100 \<le> n \<Longrightarrow> n < 1000 \<Longrightarrow>
   str_nat n = [digit_char (n div 100), digit_char (n div 10), digit_char n]"
  by (subst str_nat.simps) (simp add: str_nat_2 div_mult2_eq [symmetric])

lemma str_nat_4:
  "1000 \<le> n \<Longrightarrow> n < 10000 \<Longrightarrow>
   str_nat n = [digit_char (n div 1000), digit_char (n div 100), digit_char (n div 10),
                digit_char n]"
  by (subst str_nat.simps) (simp add: str_nat_3 div_mult2_eq [symmetric])

lemma zfill_2: "n < 100 \<Longrightarrow> zfill 2 (str_nat n) = [digit_char (n div 10), digit_char n]"
  by (cases "n < 10") (simp_all add: zfill_def str_nat_small str_nat_2)

lemma zfill_4:
  "1000 \<le> n \<Longrightarrow> n \<le> 9999 \<Longrightarrow>
   zfill 4 (str_nat n) = [digit_char (n div 1000), digit_char (n div 100),
                          digit_char (n div 10), digit_char n]"
  by (simp add: zfill_def str_nat_4)

lemma strftime_format: "clock_reading t \<Longrightarrow> timestamp_format (strftime t)"
  by (simp add: clock_reading_def strftime_def zfill_2 zfill_4 timestamp_format_def)

lemma demo_clock: "clock_reading (clock demo_world)"
  by (simp add: clock_reading_def demo_world_def)

lemma demo_strftime: "strftime (clock demo_world) = ''2025-03-09 14:05:00''"
  by (simp add: demo_world_def strftime_def zfill_2 zfill_4 digit_char_def)

lemma demo_first_subscription:
  "first_subscription (db demo_world) 1 = Some 7 \<and> first_subscription (db demo_world) 2 = None"
  by (simp add: first_subscription_def demo_world_def demo_store_def)

section \<open>Ticket creation (C4)\<close>

lemma create_support_ticket_ok:
  assumes "no_faults w" "allowed_priority prio" "cid \<in> customer_ids (db w)"
    and row_def: "row = \<lparr>t_ticket_id = next_ticket_id (SupportTickets (db w)), t_customer_id = cid,
                   t_subscription_id = first_subscription (db w) cid,
                   t_category = ''general'', t_opened_at = strftime (clock w),
                   t_closed_at = None, t_status = ''open'', t_priority = prio,
                   t_subject = subj, t_description = descr, t_cs_agent = ''AI_Agent''\<rparr>"
  shows "fst (create_support_ticket cid subj descr prio w) = Inr (SupportTicket_of row)"
    and "db (snd (create_support_ticket cid subj descr prio w)) =
           (db w)\<lparr>SupportTickets := SupportTickets (db w) @ [row]\<rparr>"
proof -
  let ?conn' = "(db w)\<lparr>SupportTickets := SupportTickets (db w) @ [row]\<rparr>"
  have "t_ticket_id row = next_ticket_id (SupportTickets (db w))"
    by (simp add: row_def)
  then have found:
    "fetchone (filter (\<lambda>t. t_ticket_id t = t_ticket_id row) (SupportTickets ?conn')) = Some row"
    using reread_inserted [of row "SupportTickets (db w)"] by simp
  have row: "\<lparr>t_ticket_id = next_ticket_id (SupportTickets (db w)), t_customer_id = cid,
              t_subscription_id = map_option s_subscription_id
                 (fetchone (filter (\<lambda>s. s_customer_id s = cid) (Subscriptions (db w)))),
              t_category = ''general'', t_opened_at = strftime (clock w),
              t_closed_at = None, t_status = ''open'', t_priority = prio,
              t_subject = subj, t_description = descr, t_cs_agent = ''AI_Agent''\<rparr> = row"
    by (simp add: row_def first_subscription_def fetchone_filter_find)
  show "fst (create_support_ticket cid subj descr prio w) = Inr (SupportTicket_of row)"
    using assms(1-3) unfolding create_support_ticket_unfold Let_def row found
    by simp
  show "db (snd (create_support_ticket cid subj descr prio w)) =
          (db w)\<lparr>SupportTickets := SupportTickets (db w) @ [row]\<rparr>"
    using assms(1-3) unfolding create_support_ticket_unfold Let_def row found
    by simp
qed

text \<open>
  C4. When no statement raises, a call of \<^verbatim>\<open>create_support_ticket\<close> with an allowed
  priority for a customer id with a customer row returns a \<^verbatim>\<open>SupportTicket\<close> and appends
  one row to \<^verbatim>\<open>SupportTickets\<close>, the returned ticket being that row read back. Row and
  ticket have status \<^verbatim>\<open>open\<close>, no \<^verbatim>\<open>closed_at\<close>, the priority of the call (one of the
  three allowed values) and the same \<^verbatim>\<open>opened_at\<close>, the formatted clock reading, which
  has the fixed-width format \<^verbatim>\<open>YYYY-MM-DD HH:MM:SS\<close> for a clock reading with a
  four-digit year. The row has category \<^verbatim>\<open>general\<close>, and as subscription the customer's
  first subscription in store order, or none. (The \<^verbatim>\<open>SupportTicket\<close> model has no
  category and no subscription field: these two are properties of the row alone.)
\<close>

theorem created_ticket_shape:
  assumes "no_faults w" and "allowed_priority prio" and "cid \<in> customer_ids (db w)"
  shows "\<exists>t row.
           fst (create_support_ticket cid subj descr prio w) = Inr t \<and>
           db (snd (create_support_ticket cid subj descr prio w)) =
             (db w)\<lparr>SupportTickets := SupportTickets (db w) @ [row]\<rparr> \<and>
           t = SupportTicket_of row \<and>
           status t = ''open'' \<and> closed_at t = None \<and> priority t = prio \<and>
           opened_at t = strftime (clock w) \<and>
           t_status row = ''open'' \<and> t_closed_at row = None \<and> t_priority row = prio \<and>
           allowed_priority (t_priority row) \<and> t_category row = ''general'' \<and>
           t_subscription_id row = first_subscription (db w) cid \<and>
           t_opened_at row = strftime (clock w) \<and>
           (clock_reading (clock w) \<longrightarrow> timestamp_format (strftime (clock w)))"
proof -
  define row where
    "row = \<lparr>t_ticket_id = next_ticket_id (SupportTickets (db w)), t_customer_id = cid,
            t_subscription_id = first_subscription (db w) cid,
            t_category = ''general'', t_opened_at = strftime (clock w),
            t_closed_at = None, t_status = ''open'', t_priority = prio,
            t_subject = subj, t_description = descr, t_cs_agent = ''AI_Agent''\<rparr>"
  note ok = create_support_ticket_ok [OF assms row_def]
  show ?thesis
    by (rule exI [of _ "SupportTicket_of row"], rule exI [of _ row])
       (simp add: ok assms(2) strftime_format row_def SupportTicket_of_def)
qed

theorem created_ticket_shape_witness:
  "no_faults demo_world \<and> allowed_priority ''high'' \<and> 1 \<in> customer_ids (db demo_world) \<and>
   clock_reading (clock demo_world) \<and>
   (\<exists>t row. fst (create_support_ticket 1 ''Wifi down'' ''...'' ''high'' demo_world) = Inr t \<and>
      db (snd (create_support_ticket 1 ''Wifi down'' ''...'' ''high'' demo_world)) =
        (db demo_world)\<lparr>SupportTickets := SupportTickets (db demo_world) @ [row]\<rparr> \<and>
      priority t = ''high'' \<and> status t = ''open'' \<and> closed_at t = None \<and>
      opened_at t = ''2025-03-09 14:05:00'' \<and> t_category row = ''general'' \<and>
      t_subscription_id row = Some 7 \<and> timestamp_format (t_opened_at row))"
proof -
  have g: "allowed_priority ''high''"
    by (simp add: allowed_priority_def)
  have one: "1 \<in> customer_ids (db demo_world)"
    by simp
  from created_ticket_shape [OF no_faults_demo g one, of "''Wifi down''" "''...''"]
    demo_clock demo_strftime demo_first_subscription
  have "\<exists>t row. fst (create_support_ticket 1 ''Wifi down'' ''...'' ''high'' demo_world) = Inr t \<and>
      db (snd (create_support_ticket 1 ''Wifi down'' ''...'' ''high'' demo_world)) =
        (db demo_world)\<lparr>SupportTickets := SupportTickets (db demo_world) @ [row]\<rparr> \<and>
      priority t = ''high'' \<and> status t = ''open'' \<and> closed_at t = None \<and>
      opened_at t = ''2025-03-09 14:05:00'' \<and> t_category row = ''general'' \<and>
      t_subscription_id row = Some 7 \<and> timestamp_format (t_opened_at row)"
    by (metis (no_types, lifting))
  with g one demo_clock no_faults_demo show ?thesis
    by blast
qed

section \<open>Errors and what they carry (C9)\<close>

lemma of_char_digit_char: "of_char (digit_char n) = (48 + n mod 10 :: nat)"
proof -
  define k where "k = n mod 10"
  then have "k < 10"
    by simp
  then have "k = 0 \<or> k = 1 \<or> k = 2 \<or> k = 3 \<or> k = 4 \<or> k = 5 \<or> k = 6 \<or> k = 7 \<or> k = 8 \<or> k = 9"
    by arith
  then have "of_char (''0123456789'' ! k) = (48 + k :: nat)"
    by (elim disjE) simp_all
  then show ?thesis
    by (simp add: digit_char_def k_def)
qed

lemma nat_of_digits_snoc:
  "nat_of_digits (ds @ [c]) = 10 * nat_of_digits ds + (of_char c - 48)"
  by (simp add: nat_of_digits_def)

lemma nat_of_digits_str_nat: "nat_of_digits (str_nat n) = n"
proof (induction n rule: str_nat.induct)
  case (1 n)
  show ?case
  proof (cases "n < 10")
    case True
    then show ?thesis
      by (simp add: str_nat_small nat_of_digits_def of_char_digit_char)
  next
    case False
    with "1" have "nat_of_digits (str_nat (n div 10)) = n div 10"
      by simp
    with False show ?thesis
      by (subst str_nat.simps) (simp add: nat_of_digits_snoc of_char_digit_char)
  qed
qed

lemma str_nat_digits: "set (str_nat n) \<subseteq> set ''0123456789''"
proof (induction n rule: str_nat.induct)
  case (1 n)
  show ?case
  proof (cases "n < 10")
    case True
    then show ?thesis
      using digit_char_cases [of n] by (simp add: str_nat_small)
  next
    case False
    with "1" have "set (str_nat (n div 10)) \<subseteq> set ''0123456789''"
      by simp
    with False show ?thesis
      using digit_char_cases [of n] by (subst str_nat.simps) simp
  qed
qed

lemma str_nat_not_Nil: "str_nat n \<noteq> []"
  by (subst str_nat.simps) simp

lemma int_of_string_str_int: "int_of_string (str_int i) = i"
proof (cases "i < 0")
  case True
  then show ?thesis
    by (simp add: int_of_string_def str_int_def nat_of_digits_str_nat)
next
  case False
  obtain c cs where s: "str_nat (nat i) = c # cs"
    using str_nat_not_Nil [of "nat i"] by (cases "str_nat (nat i)") auto
  then have "c \<in> set ''0123456789''"
    using str_nat_digits [of "nat i"] by auto
  then have "c \<noteq> CHR ''-''"
    by auto
  with False s nat_of_digits_str_nat [of "nat i"] show ?thesis
    by (simp add: int_of_string_def str_int_def)
qed

lemma str_int_no_blank: "\<forall>c \<in> set (str_int i). c \<noteq> CHR '' ''"
  using str_nat_digits [of "nat i"] str_nat_digits [of "nat (- i)"]
  by (auto simp: str_int_def)

lemma customer_id_of_not_found_message:
  "customer_id_of_message (not_found_message cid) = cid"
proof -
  have "takeWhile (\<lambda>c. c \<noteq> CHR '' '') (str_int cid @ '' not found'') = str_int cid"
    using str_int_no_blank [of cid] by (simp add: takeWhile_append2)
  then show ?thesis
    by (simp add: customer_id_of_message_def not_found_message_def int_of_string_str_int)
qed

lemma fst_bind_return_Inl:
  "fst (io_bind m (\<lambda>r. io_return (f r)) w) = Inl e \<longleftrightarrow> fst (m w) = Inl e"
  by (simp add: io_bind_def io_return_def split: prod.splits sum.splits)

lemma lookup_errors:
  assumes "no_faults w"
  shows "fst (list_customers w) \<noteq> Inl e"
    and "fst (get_support_tickets cid open_only w) \<noteq> Inl e"
    and "fst (get_customer cid w) = Inl e \<Longrightarrow>
           cid \<notin> customer_ids (db w) \<and> e = ValueError (not_found_message cid)"
    and "fst (get_billing_summary cid w) = Inl e \<Longrightarrow>
           cid \<notin> customer_ids (db w) \<and> e = ValueError (not_found_message cid)"
proof -
  show "fst (list_customers w) \<noteq> Inl e"
    using assms by (simp add: list_customers_def bind_simps)
  show "fst (get_support_tickets cid open_only w) \<noteq> Inl e"
    using assms by (simp add: get_support_tickets_ok)
  show "cid \<notin> customer_ids (db w) \<and> e = ValueError (not_found_message cid)"
    if "fst (get_customer cid w) = Inl e"
  proof (cases "cid \<in> customer_ids (db w)")
    case True
    then obtain r where
      "fetchone (filter (\<lambda>c. c_customer_id c = cid) (Customers (db w))) = Some r"
      using fetchone_customer_Some by blast
    with that assms show ?thesis
      by (simp add: get_customer_present)
  next
    case False
    with that assms show ?thesis
      by (simp add: get_customer_absent)
  qed
  show "cid \<notin> customer_ids (db w) \<and> e = ValueError (not_found_message cid)"
    if "fst (get_billing_summary cid w) = Inl e"
  proof (cases "cid \<in> customer_ids (db w)")
    case True
    with that assms show ?thesis
      by (simp add: get_billing_summary_present)
  next
    case False
    with that assms show ?thesis
      by (simp add: get_billing_summary_absent)
  qed
qed

lemma create_errors:
  assumes "no_faults w" and "fst (create_support_ticket cid subj descr prio w) = Inl e"
  shows "(\<not> allowed_priority prio \<and> e = ValueError priority_message) \<or>
         (allowed_priority prio \<and> cid \<notin> customer_ids (db w) \<and>
          e = ValueError (not_found_message cid))"
proof (cases "allowed_priority prio")
  case False
  with assms(2) show ?thesis
    by (simp add: create_support_ticket_unfold)
next
  case True
  show ?thesis
  proof (cases "cid \<in> customer_ids (db w)")
    case False
    with True assms show ?thesis
      by (simp add: create_support_ticket_absent)
  next
    case present: True
    from create_support_ticket_ok(1) [OF assms(1) True present refl, of subj descr] assms(2)
    show ?thesis by simp
  qed
qed

text \<open>
  C9, as the code has it. When no statement raises, an error of a tool call is a
  \<^verbatim>\<open>ValueError\<close> of one of two kinds, told apart by their messages, which never coincide.
  Either the call names a customer id without customer row, and the message is the
  not-found message for that id, from which the id can be read back; or the call is a
  ticket creation with a priority outside the three allowed values, and the message is the
  one fixed priority message, the same whatever the offending priority was.
\<close>

theorem handler_errors_and_their_context:
  assumes "no_faults w" and "fst (call_tool c w) = Inl e"
  shows "((\<exists>cid. requested_customer c = Some cid \<and> cid \<notin> customer_ids (db w) \<and>
             e = ValueError (not_found_message cid) \<and>
             customer_id_of_message (not_found_message cid) = cid) \<or>
          (\<exists>prio. requested_priority c = Some prio \<and> \<not> allowed_priority prio \<and>
             e = ValueError priority_message)) \<and>
         priority_message \<noteq> not_found_message cid'"
proof (cases c)
  case List_customers
  with assms lookup_errors(1) [OF assms(1), of e] show ?thesis
    by (simp add: fst_bind_return_Inl)
next
  case (Get_customer cid)
  with assms lookup_errors(3) [OF assms(1), of cid e] show ?thesis
    by (simp add: fst_bind_return_Inl customer_id_of_not_found_message messages_differ)
next
  case (Get_billing_summary cid)
  with assms lookup_errors(4) [OF assms(1), of cid e] show ?thesis
    by (simp add: fst_bind_return_Inl customer_id_of_not_found_message messages_differ)
next
  case (Get_support_tickets cid open_only)
  with assms lookup_errors(2) [OF assms(1), of cid open_only e] show ?thesis
    by (simp add: fst_bind_return_Inl)
next
  case (Create_support_ticket cid subj descr prio)
  with assms create_errors [OF assms(1), of cid subj descr prio e] show ?thesis
    by (auto simp add: fst_bind_return_Inl customer_id_of_not_found_message messages_differ)
qed

theorem handler_errors_and_their_context_witness:
  "no_faults demo_world \<and>
   fst (call_tool (Get_customer 99) demo_world) = Inl (ValueError (not_found_message 99)) \<and>
   customer_id_of_message (not_found_message 99) = 99 \<and>
   not_found_message 99 = ''Customer 99 not found'' \<and>
   fst (call_tool (Create_support_ticket 1 ''x'' ''y'' ''urgent'') demo_world) =
     Inl (ValueError priority_message) \<and>
   priority_message \<noteq> not_found_message 99"
proof -
  have a: "fst (call_tool (Get_customer 99) demo_world) = Inl (ValueError (not_found_message 99))"
    by (simp add: fst_bind_return_Inl get_customer_absent)
  have b: "fst (call_tool (Create_support_ticket 1 ''x'' ''y'' ''urgent'') demo_world) =
      Inl (ValueError priority_message)"
    by (simp add: fst_bind_return_Inl create_support_ticket_unfold allowed_priority_def)
  have m: "not_found_message 99 = ''Customer 99 not found''"
    by (simp add: not_found_message_def str_int_def str_nat_2 digit_char_def)
  from handler_errors_and_their_context [OF no_faults_demo a, of 99]
  have "customer_id_of_message (not_found_message 99) = 99"
    by auto
  moreover from handler_errors_and_their_context [OF no_faults_demo b, of 99]
  have "priority_message \<noteq> not_found_message 99"
    by blast
  ultimately show ?thesis
    using a b m no_faults_demo by blast
qed

text \<open>
  C9 as stated fails: the error for the priority \<^verbatim>\<open>urgent\<close> and the error for the priority
  \<^verbatim>\<open>critical\<close> are the same value, a fixed message that names neither.
\<close>

theorem priority_error_without_value_counterexample:
  "\<not> allowed_priority ''urgent'' \<and> \<not> allowed_priority ''critical'' \<and>
   ''urgent'' \<noteq> ''critical'' \<and>
   fst (create_support_ticket 1 ''x'' ''y'' ''urgent'' demo_world) =
     fst (create_support_ticket 1 ''x'' ''y'' ''critical'' demo_world) \<and>
   fst (create_support_ticket 1 ''x'' ''y'' ''urgent'' demo_world) =
     Inl (ValueError (''Priority must be '' @ sq ''low'' @ '', '' @ sq ''medium'' @ '', or '' @
       sq ''high''))"
  by (simp add: create_support_ticket_unfold allowed_priority_def priority_message_def)

section \<open>Connections (C7)\<close>

text \<open>
  C7, as the code has it. After a tool call, the connections opened and not closed are
  those before it, plus one exactly when the call ended in a store error raised by one of
  its statements. So on success, on a not-found error and on a priority error (which opens
  no connection) the connection of the call has been closed when the call returns; the
  record models are built after the close. When a statement raises, no handler closes the
  connection on the way out.
\<close>

theorem connection_released_unless_store_error:
  "open_connections (log (snd (call_tool c w))) =
     open_connections (log w) + (if fst (call_tool c w) = Inl StoreError then 1 else 0)"
  by (cases c)
     (simp_all only: call_tool.simps snd_bind_return fst_bind_return_StoreError
        connections_lookup connections_create)

theorem connection_released_unless_store_error_witness:
  "fst (call_tool (Get_customer 99) demo_world) = Inl (ValueError (not_found_message 99)) \<and>
   open_connections (log (snd (call_tool (Get_customer 99) demo_world))) =
     open_connections (log demo_world) \<and>
   fst (call_tool List_customers (demo_world\<lparr>faults := [True]\<rparr>)) = Inl StoreError \<and>
   open_connections (log (snd (call_tool List_customers (demo_world\<lparr>faults := [True]\<rparr>)))) =
     open_connections (log (demo_world\<lparr>faults := [True]\<rparr>)) + 1"
proof -
  have a: "fst (call_tool (Get_customer 99) demo_world) = Inl (ValueError (not_found_message 99))"
    by (simp add: fst_bind_return_Inl get_customer_absent)
  have b: "fst (call_tool List_customers (demo_world\<lparr>faults := [True]\<rparr>)) = Inl StoreError"
    by (simp add: fst_bind_return_Inl list_customers_def bind_simps next_fault_def)
  from connection_released_unless_store_error [of "Get_customer 99" demo_world] a
  have "open_connections (log (snd (call_tool (Get_customer 99) demo_world))) =
          open_connections (log demo_world)"
    by simp
  moreover
  from connection_released_unless_store_error [of List_customers "demo_world\<lparr>faults := [True]\<rparr>"] b
  have "open_connections (log (snd (call_tool List_customers (demo_world\<lparr>faults := [True]\<rparr>)))) =
          open_connections (log (demo_world\<lparr>faults := [True]\<rparr>)) + 1"
    by simp
  ultimately show ?thesis
    using a b by blast
qed

text \<open>
  C7 as stated fails: in \<^verbatim>\<open>get_billing_summary\<close> for customer 1, when the invoice query
  raises, the call ends with the connection opened and never closed.
\<close>

theorem connection_left_open_counterexample:
  "fst (call_tool (Get_billing_summary 1) (demo_world\<lparr>faults := [False, True]\<rparr>)) =
     Inl StoreError \<and>
   log (snd (call_tool (Get_billing_summary 1) (demo_world\<lparr>faults := [False, True]\<rparr>))) =
     [Connect, Execute, Execute] \<and>
   open_connections (log (demo_world\<lparr>faults := [False, True]\<rparr>)) = 0 \<and>
   open_connections (log (snd (call_tool (Get_billing_summary 1)
      (demo_world\<lparr>faults := [False, True]\<rparr>)))) = 1"
  by (simp add: snd_bind_return fst_bind_return_StoreError get_billing_summary_def
      bind_simps next_fault_def demo_world_def demo_store_def fetchone_def)

section \<open>Frame (C8)\<close>

text \<open>
  C8. Whatever the world (store, pending failures) and the arguments, the four lookups
  leave the store as it was, whether they return or raise; \<^verbatim>\<open>create_support_ticket\<close>
  leaves it as it was or appends one row to \<^verbatim>\<open>SupportTickets\<close>, all else unchanged.
\<close>

theorem lookups_leave_store_unchanged:
  "db (snd (list_customers w)) = db w \<and>
   db (snd (get_customer cid w)) = db w \<and>
   db (snd (get_billing_summary cid w)) = db w \<and>
   db (snd (get_support_tickets cid open_only w)) = db w \<and>
   (db (snd (create_support_ticket cid subj descr prio w)) = db w \<or>
    (\<exists>row. db (snd (create_support_ticket cid subj descr prio w)) =
       (db w)\<lparr>SupportTickets := SupportTickets (db w) @ [row]\<rparr>))"
  using db_list_customers db_get_customer db_get_billing_summary db_get_support_tickets
    db_create_support_ticket by blast

theorem lookups_leave_store_unchanged_witness:
  "db (snd (list_customers demo_world)) = db demo_world \<and>
   db (snd (get_customer 1 demo_world)) = db demo_world \<and>
   db (snd (get_billing_summary 1 demo_world)) = db demo_world \<and>
   db (snd (get_support_tickets 1 True demo_world)) = db demo_world \<and>
   db (snd (create_support_ticket 1 ''Wifi down'' ''...'' ''high'' demo_world)) \<noteq> db demo_world \<and>
   (\<exists>row. db (snd (create_support_ticket 1 ''Wifi down'' ''...'' ''high'' demo_world)) =
      (db demo_world)\<lparr>SupportTickets := SupportTickets (db demo_world) @ [row]\<rparr>)"
proof -
  have g: "allowed_priority ''high''"
    by (simp add: allowed_priority_def)
  have one: "1 \<in> customer_ids (db demo_world)"
    by simp
  have "SupportTickets (db (snd (create_support_ticket 1 ''Wifi down'' ''...'' ''high'' demo_world)))
          \<noteq> SupportTickets (db demo_world)"
    using create_support_ticket_ok(2) [OF no_faults_demo g one refl, of "''Wifi down''" "''...''"]
    by simp
  then have changed:
    "db (snd (create_support_ticket 1 ''Wifi down'' ''...'' ''high'' demo_world)) \<noteq> db demo_world"
    by auto
  from lookups_leave_store_unchanged
         [of demo_world 1 True "''Wifi down''" "''...''" "''high''"] changed
  show ?thesis
    by blast
qed

end
